theory Spec2Isabelle
  imports Complex_Main "HOL-Library.AList" "HOL-Library.Sublist"
begin

section \<open>Python values and the exceptions the code can raise\<close>

text \<open>
  The services work on values decoded from JSON (\<^verbatim>\<open>json.loads\<close>): the provider's
  chunks and the tool arguments. A Python \<^verbatim>\<open>str\<close> is represented by its UTF-8
  encoding, so \<^typ>\<open>string\<close> is a list of bytes. A decoded object is an association list
  with distinct keys. Numbers are the integers (\<^verbatim>\<open>bool\<close> apart); Python floats are
  outside the model.
\<close>

datatype json =
    JNull
  | JBool bool
  | JNum int
  | JStr string
  | JArr "json list"
  | JObj "(string \<times> json) list"

text \<open>Exception classes; the message of an exception is not modelled.\<close>

datatype py_exn =
    TypeError
  | AttributeError
  | KeyError
  | IndexError
  | ValueError
  | OverflowError
  | UnicodeDecodeError
  | JSONDecodeError
  | RecursionError
  | StatementError

text \<open>Sequencing of fallible steps: the first exception ends the computation.\<close>

definition thn :: "py_exn + 'a \<Rightarrow> ('a \<Rightarrow> py_exn + 'b) \<Rightarrow> py_exn + 'b" where
  "thn m f = (case m of Inl e \<Rightarrow> Inl e | Inr x \<Rightarrow> f x)"

text \<open>\<^verbatim>\<open>bool(v)\<close>, the test of \<^verbatim>\<open>if v\<close> and \<^verbatim>\<open>not v\<close>.\<close>

fun truthy :: "json \<Rightarrow> bool" where
  "truthy JNull = False"
| "truthy (JBool b) = b"
| "truthy (JNum n) = (n \<noteq> 0)"
| "truthy (JStr s) = (s \<noteq> [])"
| "truthy (JArr xs) = (xs \<noteq> [])"
| "truthy (JObj kvs) = (kvs \<noteq> [])"

text \<open>\<^verbatim>\<open>p in s\<close> on two strings: \<open>p\<close> occurs in \<open>s\<close> as a contiguous block.\<close>

primrec substring :: "string \<Rightarrow> string \<Rightarrow> bool" where
  "substring p [] = (p = [])"
| "substring p (c # cs) = (prefix p (c # cs) \<or> substring p cs)"

text \<open>
  \<^verbatim>\<open>key in v\<close> for a string key: membership among the keys of a dict, among the
  elements of a list, as a substring of a string; any other value is not iterable.
\<close>

fun py_in :: "string \<Rightarrow> json \<Rightarrow> py_exn + bool" where
  "py_in key (JObj kvs) = Inr (map_of kvs key \<noteq> None)"
| "py_in key (JArr xs) = Inr (JStr key \<in> set xs)"
| "py_in key (JStr s) = Inr (substring key s)"
| "py_in key v = Inl TypeError"

text \<open>
  \<^verbatim>\<open>v[key]\<close> for a string key: only a dict can be indexed by a string.
\<close>

fun py_getitem :: "json \<Rightarrow> string \<Rightarrow> py_exn + json" where
  "py_getitem (JObj kvs) key = (case map_of kvs key of None \<Rightarrow> Inl KeyError | Some x \<Rightarrow> Inr x)"
| "py_getitem v key = Inl TypeError"

text \<open>\<^verbatim>\<open>v.get(key, default)\<close>: only a dict has the method.\<close>

definition dict_get :: "(string \<times> json) list \<Rightarrow> string \<Rightarrow> json \<Rightarrow> json" where
  "dict_get kvs key dflt = (case map_of kvs key of None \<Rightarrow> dflt | Some x \<Rightarrow> x)"

fun py_get :: "json \<Rightarrow> string \<Rightarrow> json \<Rightarrow> py_exn + json" where
  "py_get (JObj kvs) key dflt = Inr (dict_get kvs key dflt)"
| "py_get v key dflt = Inl AttributeError"

text \<open>
  The characters of a string: a lead byte with the continuation bytes
  (\<open>0x80\<close> to \<open>0xBF\<close>) that follow it.
\<close>

definition is_cont :: "char \<Rightarrow> bool" where
  "is_cont c = (128 \<le> (of_char c :: nat) \<and> (of_char c :: nat) < 192)"

function utf8_chars :: "string \<Rightarrow> string list" where
  "utf8_chars [] = []"
| "utf8_chars (c # cs) = (c # takeWhile is_cont cs) # utf8_chars (dropWhile is_cont cs)"
  by pat_completeness auto
termination
  by (relation "measure length") (auto simp: length_dropWhile_le less_Suc_eq_le)

text \<open>
  \<^verbatim>\<open>v[0]\<close>: the first element of a list, the first character of a string; a decoded
  dict has string keys only, so the key \<open>0\<close> is missing; other values cannot be indexed.
\<close>

fun py_first :: "json \<Rightarrow> py_exn + json" where
  "py_first (JArr []) = Inl IndexError"
| "py_first (JArr (x # xs)) = Inr x"
| "py_first (JStr []) = Inl IndexError"
| "py_first (JStr (c # cs)) = Inr (JStr (c # takeWhile is_cont cs))"
| "py_first (JObj kvs) = Inl KeyError"
| "py_first v = Inl TypeError"

text \<open>
  The items a \<^verbatim>\<open>for\<close> loop visits: the elements of a list, the characters of a
  string, the keys of a dict.
\<close>

fun py_iter :: "json \<Rightarrow> py_exn + json list" where
  "py_iter (JArr xs) = Inr xs"
| "py_iter (JStr s) = Inr (map JStr (utf8_chars s))"
| "py_iter (JObj kvs) = Inr (map (\<lambda>kv. JStr (fst kv)) kvs)"
| "py_iter v = Inl TypeError"

section \<open>The streaming parser: \<^verbatim>\<open>LLMService\<close>\<close>

subsection \<open>The accumulator of tool calls\<close>

text \<open>
  \<^verbatim>\<open>tool_call_accumulator\<close> is a dict keyed by the fragment's \<^verbatim>\<open>index\<close>, a decoded
  value. As dict keys \<^verbatim>\<open>True\<close> and \<open>1\<close>, \<^verbatim>\<open>False\<close> and \<open>0\<close> are the same key; a
  list or a dict is unhashable. The dict keeps insertion order: an association list.
\<close>

datatype acc_key = KNone | KInt int | KStr string

fun hash_key :: "json \<Rightarrow> py_exn + acc_key" where
  "hash_key JNull = Inr KNone"
| "hash_key (JBool b) = Inr (KInt (if b then 1 else 0))"
| "hash_key (JNum n) = Inr (KInt n)"
| "hash_key (JStr s) = Inr (KStr s)"
| "hash_key v = Inl TypeError"

record tool_acc =
  acc_id :: json
  acc_name :: json
  acc_arguments :: string

type_synonym accumulator = "(acc_key \<times> tool_acc) list"

definition new_tool_acc :: tool_acc where
  "new_tool_acc = \<lparr>acc_id = JStr [], acc_name = JStr [], acc_arguments = []\<rparr>"

text \<open>
  \<^verbatim>\<open>acc['arguments'] += v\<close>: the left side is always a string, so the right side must
  be one.
\<close>

fun add_arguments :: "tool_acc \<Rightarrow> json \<Rightarrow> py_exn + tool_acc" where
  "add_arguments a (JStr s) = Inr (a\<lparr>acc_arguments := acc_arguments a @ s\<rparr>)"
| "add_arguments a v = Inl TypeError"

text \<open>
  The body of the loop over \<^verbatim>\<open>delta['tool_calls']\<close> (source lines 139 to 155), for
  one entry \<open>tc\<close>.
\<close>

definition accumulate_tc :: "accumulator \<Rightarrow> json \<Rightarrow> py_exn + accumulator" where
  "accumulate_tc acc tc =
     thn (py_get tc ''index'' (JNum 0)) (\<lambda>index.
     thn (hash_key index) (\<lambda>k.
     let a0 = (case map_of acc k of None \<Rightarrow> new_tool_acc | Some a \<Rightarrow> a) in
     thn (py_get tc ''id'' JNull) (\<lambda>i.
     let a1 = (if truthy i then a0\<lparr>acc_id := i\<rparr> else a0) in
     thn (py_get tc ''function'' (JObj [])) (\<lambda>f.
     thn (py_get f ''name'' JNull) (\<lambda>n.
     let a2 = (if truthy n then a1\<lparr>acc_name := n\<rparr> else a1) in
     thn (py_get f ''arguments'' JNull) (\<lambda>g.
     thn (if truthy g then add_arguments a2 g else Inr a2) (\<lambda>a3.
     Inr (AList.update k a3 acc))))))))"

fun accumulate :: "accumulator \<Rightarrow> json list \<Rightarrow> py_exn + accumulator" where
  "accumulate acc [] = Inr acc"
| "accumulate acc (tc # tcs) = thn (accumulate_tc acc tc) (\<lambda>acc'. accumulate acc' tcs)"

subsection \<open>Events\<close>

text \<open>
  The dicts \<^verbatim>\<open>chat_stream\<close> yields, by their \<^verbatim>\<open>'type'\<close>: \<^verbatim>\<open>text\<close>, \<^verbatim>\<open>tool_call\<close>
  (id, name, arguments), \<^verbatim>\<open>finish\<close>, \<^verbatim>\<open>error\<close> and \<^verbatim>\<open>done\<close>. The four error
  contents are: the API key is not configured; the request timed out; the service is
  unavailable (with the transport's message); the service failed unexpectedly.
\<close>

datatype llm_error =
    KeyNotConfigured
  | RequestTimeout
  | ServiceUnavailable string
  | ServiceFault

datatype event =
    Text json
  | Tool_call json json string
  | Finish json
  | Error llm_error
  | Done

subsection \<open>\<^verbatim>\<open>_parse_chunk\<close>\<close>

text \<open>
  The function returns the event of the chunk, if any, and leaves the accumulator
  updated; an exception leaves the generator, so no accumulator survives it.
\<close>

definition finish_event :: "json \<Rightarrow> accumulator \<Rightarrow> event" where
  "finish_event finish_reason acc =
     (if finish_reason = JStr ''tool_calls'' \<and> acc \<noteq> [] then
        (case map_of acc (KInt 0) of
           Some first_tool \<Rightarrow>
             Tool_call (acc_id first_tool) (acc_name first_tool) (acc_arguments first_tool)
         | None \<Rightarrow> Finish finish_reason)
      else Finish finish_reason)"

definition parse_chunk :: "json \<Rightarrow> accumulator \<Rightarrow> py_exn + (event option \<times> accumulator)" where
  "parse_chunk chunk acc =
     thn (py_in ''choices'' chunk) (\<lambda>has_choices.
     if \<not> has_choices then Inr (None, acc) else
     thn (py_getitem chunk ''choices'') (\<lambda>choices.
     if \<not> truthy choices then Inr (None, acc) else
     thn (py_first choices) (\<lambda>choice.
     thn (py_get choice ''delta'' (JObj [])) (\<lambda>delta.
     thn (py_in ''tool_calls'' delta) (\<lambda>has_tool_calls.
     if has_tool_calls then
       thn (py_getitem delta ''tool_calls'') (\<lambda>tcs.
       thn (py_iter tcs) (\<lambda>items.
       thn (accumulate acc items) (\<lambda>acc'.
       Inr (None, acc'))))
     else
     thn (py_in ''content'' delta) (\<lambda>has_content.
     thn (if has_content then py_getitem delta ''content'' else Inr JNull) (\<lambda>content.
     if has_content \<and> truthy content then Inr (Some (Text content), acc) else
     thn (py_get choice ''finish_reason'' JNull) (\<lambda>finish_reason.
     if truthy finish_reason then Inr (Some (finish_event finish_reason acc), acc)
     else Inr (None, acc)))))))))"

subsection \<open>The loop of \<^verbatim>\<open>chat_stream\<close> over the lines of the response\<close>

text \<open>
  \<^verbatim>\<open>line.decode('utf-8')\<close> raises \<^verbatim>\<open>UnicodeDecodeError\<close> unless the bytes are
  well-formed UTF-8: one byte below \<open>0x80\<close>; a lead byte \<open>0xC2\<close> to \<open>0xDF\<close> and one
  continuation byte; \<open>0xE0\<close> to \<open>0xEF\<close> and two; \<open>0xF0\<close> to \<open>0xF4\<close> and three, with
  the first continuation byte restricted after \<open>0xE0\<close>, \<open>0xED\<close>, \<open>0xF0\<close> and \<open>0xF4\<close>
  (no overlong form, no surrogate, nothing above \<open>U+10FFFF\<close>).
\<close>

definition between :: "nat \<Rightarrow> nat \<Rightarrow> nat \<Rightarrow> bool" where
  "between lo hi b = (lo \<le> b \<and> b \<le> hi)"

fun utf8_ok :: "nat list \<Rightarrow> bool" where
  "utf8_ok [] = True"
| "utf8_ok (b # bs) =
     (if b < 128 then utf8_ok bs
      else if between 194 223 b then
        (case bs of
           c1 # r \<Rightarrow> between 128 191 c1 \<and> utf8_ok r
         | _ \<Rightarrow> False)
      else if between 224 239 b then
        (case bs of
           c1 # c2 # r \<Rightarrow>
             between (if b = 224 then 160 else 128) (if b = 237 then 159 else 191) c1 \<and>
             between 128 191 c2 \<and> utf8_ok r
         | _ \<Rightarrow> False)
      else if between 240 244 b then
        (case bs of
           c1 # c2 # c3 # r \<Rightarrow>
             between (if b = 240 then 144 else 128) (if b = 244 then 143 else 191) c1 \<and>
             between 128 191 c2 \<and> between 128 191 c3 \<and> utf8_ok r
         | _ \<Rightarrow> False)
      else False)"

definition utf8_valid :: "string \<Rightarrow> bool" where
  "utf8_valid line = utf8_ok (map of_char line)"

text \<open>
  The events of one decoded chunk (source lines 105 to 108): the parsed event when
  there is one. An exception of \<^verbatim>\<open>_parse_chunk\<close> is no \<^verbatim>\<open>JSONDecodeError\<close>, so it
  reaches \<^verbatim>\<open>except Exception\<close> (lines 120 to 122): one error event, and the generator
  ends.
\<close>

fun yielded :: "event option \<Rightarrow> event list" where
  "yielded None = []"
| "yielded (Some ev) = [ev]"

text \<open>
  How the transport ends the iteration once its lines are consumed: it closes, or it
  raises \<^verbatim>\<open>Timeout\<close>, another \<^verbatim>\<open>RequestException\<close> (with its message), or an exception of
  another class. The three \<^verbatim>\<open>except\<close> clauses of source lines 112 to 122 answer them.
\<close>

datatype transport_exn = Timeout | RequestException string | Unexpected

fun closing_events :: "transport_exn option \<Rightarrow> event list" where
  "closing_events None = []"
| "closing_events (Some Timeout) = [Error RequestTimeout]"
| "closing_events (Some (RequestException m)) = [Error (ServiceUnavailable m)]"
| "closing_events (Some Unexpected) = [Error ServiceFault]"

text \<open>
  The loop of source lines 91 to 110. \<open>loads\<close> is \<^verbatim>\<open>json.loads\<close>: it returns the
  decoded value or raises. Only \<^verbatim>\<open>JSONDecodeError\<close> is caught by the inner \<^verbatim>\<open>try\<close>,
  which passes to the next line; an exception of another class (\<^verbatim>\<open>RecursionError\<close> on
  deep nesting, \<^verbatim>\<open>ValueError\<close> on an integer of too many digits) reaches
  \<^verbatim>\<open>except Exception\<close> as those of \<^verbatim>\<open>_parse_chunk\<close> do. \<open>closing\<close> says how
  \<^verbatim>\<open>iter_lines\<close> ends. The result is the list of the events yielded, in order.
\<close>

fun chat_stream_lines ::
  "(string \<Rightarrow> py_exn + json) \<Rightarrow> transport_exn option \<Rightarrow> accumulator \<Rightarrow> string list \<Rightarrow>
   event list"
where
  "chat_stream_lines loads closing acc [] = closing_events closing"
| "chat_stream_lines loads closing acc (line # rest) =
     (if line = [] then chat_stream_lines loads closing acc rest
      else if \<not> utf8_valid line then [Error ServiceFault]
      else if \<not> prefix ''data: '' line then chat_stream_lines loads closing acc rest
      else if drop 6 line = ''[DONE]'' then [Done]
      else
        (case loads (drop 6 line) of
           Inl JSONDecodeError \<Rightarrow> chat_stream_lines loads closing acc rest
         | Inl e \<Rightarrow> [Error ServiceFault]
         | Inr chunk \<Rightarrow>
             (case parse_chunk chunk acc of
                Inl e \<Rightarrow> [Error ServiceFault]
              | Inr (parsed, acc') \<Rightarrow>
                  yielded parsed @ chat_stream_lines loads closing acc' rest)))"

text \<open>
  \<^verbatim>\<open>chat_stream\<close> (source lines 55 to 122): the check of the API key, the request
  (\<^verbatim>\<open>requests.post\<close> and \<^verbatim>\<open>raise_for_status\<close>, whose outcome is the parameter
  \<open>response\<close>), and the loop with an empty accumulator.
\<close>

definition chat_stream ::
  "string \<Rightarrow> (string \<Rightarrow> py_exn + json) \<Rightarrow>
   transport_exn + (string list \<times> transport_exn option) \<Rightarrow> event list"
where
  "chat_stream api_key loads response =
     (if api_key = [] then [Error KeyNotConfigured]
      else
        (case response of
           Inl Timeout \<Rightarrow> [Error RequestTimeout]
         | Inl (RequestException m) \<Rightarrow> [Error (ServiceUnavailable m)]
         | Inl Unexpected \<Rightarrow> [Error ServiceFault]
         | Inr (lines, closing) \<Rightarrow> chat_stream_lines loads closing [] lines))"

text \<open>
  The parser fed with decoded chunks: what the loop does with the lines that decode,
  none of them the \<^verbatim>\<open>[DONE]\<close> marker (lemma \<open>chat_stream_lines_decoded\<close>).
\<close>

fun feed :: "accumulator \<Rightarrow> json list \<Rightarrow> event list" where
  "feed acc [] = []"
| "feed acc (chunk # chunks) =
     (case parse_chunk chunk acc of
        Inl e \<Rightarrow> [Error ServiceFault]
      | Inr (parsed, acc') \<Rightarrow> yielded parsed @ feed acc' chunks)"

text \<open>
  The accumulator a run of chunks leaves behind, when no chunk raises.
\<close>

fun accumulated :: "accumulator \<Rightarrow> json list \<Rightarrow> accumulator option" where
  "accumulated acc [] = Some acc"
| "accumulated acc (chunk # chunks) =
     (case parse_chunk chunk acc of
        Inl e \<Rightarrow> None
      | Inr (parsed, acc') \<Rightarrow> accumulated acc' chunks)"

subsection \<open>The fragments the properties speak of\<close>


text \<open>The first choice of a chunk: \<^verbatim>\<open>chunk['choices'][0]\<close> of a dict with a non-empty list.\<close>

fun first_choice :: "json \<Rightarrow> json option" where
  "first_choice (JObj kvs) =
     (case map_of kvs ''choices'' of Some (JArr (c # cs)) \<Rightarrow> Some c | _ \<Rightarrow> None)"
| "first_choice v = None"

text \<open>
  A terminal marker with the reason \<open>reason\<close>: the first choice is a dict whose delta is
  a dict with no tool calls and no content (absent, or falsy as the provider's
  \<^verbatim>\<open>null\<close> and \<^verbatim>\<open>""\<close> are), and whose \<^verbatim>\<open>finish_reason\<close> is the truthy \<open>reason\<close>.
\<close>

definition terminal_marker :: "json \<Rightarrow> json \<Rightarrow> bool" where
  "terminal_marker chunk reason =
     (case first_choice chunk of
        Some (JObj c) \<Rightarrow>
          (case dict_get c ''delta'' (JObj []) of
             JObj d \<Rightarrow>
               map_of d ''tool_calls'' = None \<and> \<not> truthy (dict_get d ''content'' JNull) \<and>
               truthy reason \<and> map_of c ''finish_reason'' = Some reason
           | _ \<Rightarrow> False)
      | _ \<Rightarrow> False)"

text \<open>
  A tool-call fragment, read as the provider means it: the first choice's delta carries
  one entry under \<^verbatim>\<open>tool_calls\<close>, with its index (\<open>0\<close> when absent), its id and name
  (\<^verbatim>\<open>None\<close> when absent) and its chunk of argument text (empty when absent or falsy).
  The view is \<open>None\<close> for an entry the parser cannot accumulate.
\<close>

fun arg_text :: "json \<Rightarrow> string option" where
  "arg_text (JStr a) = Some a"
| "arg_text g = (if truthy g then None else Some [])"

definition tc_view :: "json \<Rightarrow> (acc_key \<times> json \<times> json \<times> string) option" where
  "tc_view tc =
     (case tc of
        JObj kvs \<Rightarrow>
          (case hash_key (dict_get kvs ''index'' (JNum 0)) of
             Inr k \<Rightarrow>
               (case dict_get kvs ''function'' (JObj []) of
                  JObj f \<Rightarrow>
                    (case arg_text (dict_get f ''arguments'' JNull) of
                       Some a \<Rightarrow>
                         Some (k, dict_get kvs ''id'' JNull, dict_get f ''name'' JNull, a)
                     | None \<Rightarrow> None)
                | _ \<Rightarrow> None)
           | Inl e \<Rightarrow> None)
      | _ \<Rightarrow> None)"

definition fragment_view :: "json \<Rightarrow> (acc_key \<times> json \<times> json \<times> string) option" where
  "fragment_view chunk =
     (case first_choice chunk of
        Some (JObj c) \<Rightarrow>
          (case dict_get c ''delta'' (JObj []) of
             JObj d \<Rightarrow>
               (case map_of d ''tool_calls'' of
                  Some (JArr [tc]) \<Rightarrow> tc_view tc
                | _ \<Rightarrow> None)
           | _ \<Rightarrow> None)
      | _ \<Rightarrow> None)"

text \<open>
  What one fragment (id, name, argument text) does to the entry of its index, and the
  entry of an index in the accumulator (a fresh one when the index is new).
\<close>

definition merge_part :: "tool_acc \<Rightarrow> json \<times> json \<times> string \<Rightarrow> tool_acc" where
  "merge_part a p =
     (let a1 = (if truthy (fst p) then a\<lparr>acc_id := fst p\<rparr> else a);
          a2 = (if truthy (fst (snd p)) then a1\<lparr>acc_name := fst (snd p)\<rparr> else a1)
      in a2\<lparr>acc_arguments := acc_arguments a2 @ snd (snd p)\<rparr>)"

definition slot :: "accumulator \<Rightarrow> acc_key \<Rightarrow> tool_acc" where
  "slot acc k = (case map_of acc k of None \<Rightarrow> new_tool_acc | Some a \<Rightarrow> a)"

text \<open>The last truthy value of a list, \<open>cur\<close> when there is none.\<close>

fun latest :: "json \<Rightarrow> json list \<Rightarrow> json" where
  "latest cur [] = cur"
| "latest cur (v # vs) = latest (if truthy v then v else cur) vs"

text \<open>Chunks in the provider's wire format, with the fields the parser reads.\<close>

definition tool_call_chunk :: "json \<Rightarrow> json \<Rightarrow> json \<Rightarrow> string \<Rightarrow> json" where
  "tool_call_chunk index i n a =
     JObj [(''choices'', JArr [JObj [(''delta'', JObj [(''tool_calls'', JArr [JObj
       [(''index'', index), (''id'', i),
        (''function'', JObj [(''name'', n), (''arguments'', JStr a)])]])])]])]"

definition finish_chunk :: "string \<Rightarrow> json" where
  "finish_chunk reason =
     JObj [(''choices'', JArr [JObj [(''delta'', JObj []), (''finish_reason'', JStr reason)]])]"



section \<open>The conversation store: \<^verbatim>\<open>ConversationStore\<close>\<close>

text \<open>
  A conversation is a Python dict, and its \<^verbatim>\<open>'messages'\<close> a Python list: objects with
  an identity, which \<^verbatim>\<open>get\<close> hands out and the caller mutates in place. The model keeps
  them in a heap: \<open>dict_heap\<close> maps the address of a conversation dict to its items,
  \<open>list_heap\<close> the address of a list to its elements. \<^verbatim>\<open>_store\<close> maps a conversation
  id to the address of its dict, in insertion order. A \<^verbatim>\<open>datetime\<close> is the number of
  microseconds since the epoch, and a \<^verbatim>\<open>timedelta\<close> a number of microseconds.
\<close>

type_synonym ref = nat

record message =
  role :: string
  content :: string

record conversation =
  conv_id :: string
  conv_baby_id :: int
  messages :: ref
  created_at :: int
  last_active :: "int option"

record memory =
  dict_heap :: "ref \<Rightarrow> conversation option"
  list_heap :: "ref \<Rightarrow> message list option"
  next_ref :: ref
  store :: "(string \<times> ref) list"
  max_conversations :: int
  ttl_seconds :: int

text \<open>\<^verbatim>\<open>datetime.min\<close>, the default of \<^verbatim>\<open>conv.get('last_active', datetime.min)\<close>.\<close>

definition datetime_min :: int where
  "datetime_min = - 62135596800 * 1000000"

text \<open>
  \<^verbatim>\<open>timedelta.total_seconds()\<close> divides the microseconds by \<open>10\<^sup>6\<close> and returns the
  double nearest to the quotient, ties going to the even significand. The double is
  given as the rational it denotes: for \<open>x \<noteq> 0\<close> it is \<open>\<plusminus> m \<sqdot> 2\<^sup>k\<close>, where
  \<open>2\<^sup>k\<close> is the unit in the last of the 53 binary places of \<open>|x| / 10\<^sup>6\<close> and \<open>m\<close>
  is \<open>|x| / (10\<^sup>6 \<sqdot> 2\<^sup>k)\<close> rounded to an integer. The difference of two datetimes
  is far from the range where a double overflows or is subnormal.
\<close>

text \<open>The integer part of the binary logarithm of \<open>n \<ge> 1\<close>.\<close>

function ilog2 :: "int \<Rightarrow> int" where
  "ilog2 n = (if n \<le> 1 then 0 else 1 + ilog2 (n div 2))"
  by pat_completeness auto
termination
  by (relation "measure nat") auto

declare ilog2.simps [simp del]

text \<open>\<open>a / b\<close> rounded to the nearest integer, a tie to the even one; \<open>b\<close> is positive.\<close>

definition round_div :: "int \<Rightarrow> int \<Rightarrow> int" where
  "round_div a b =
     (let f = a div b; r = a mod b
      in if 2 * r < b then f else if b < 2 * r then f + 1 else if even f then f else f + 1)"

text \<open>
  The exponent \<open>e\<close> with \<open>2\<^sup>e \<le> n / 10\<^sup>6 < 2\<^sup>e\<^sup>+\<^sup>1\<close>, for \<open>n \<ge> 1\<close>: since
  \<open>2\<^sup>1\<^sup>9 < 10\<^sup>6 < 2\<^sup>2\<^sup>0\<close>, it is the logarithm of \<open>n\<close> less 19 or less 20.
\<close>

definition double_exponent :: "int \<Rightarrow> int" where
  "double_exponent n =
     (let l = ilog2 n
      in if 1000000 * 2 ^ nat l \<le> n * 2 ^ 19 then l - 19 else l - 20)"

definition total_seconds :: "int \<Rightarrow> rat" where
  "total_seconds x =
     (if x = 0 then 0
      else
        (let n = \<bar>x\<bar>;
             k = double_exponent n - 52;
             m = (if 0 \<le> k then round_div n (1000000 * 2 ^ nat k)
                  else round_div (n * 2 ^ nat (- k)) 1000000)
         in of_int (sgn x * m) * 2 powi k))"

text \<open>
  \<^verbatim>\<open>_is_expired\<close> (source lines 54 to 57): the double
  \<^verbatim>\<open>(datetime.now() - last_active).total_seconds()\<close> is compared with the integer
  \<^verbatim>\<open>ttl_seconds\<close>, and Python compares a float with an integer exactly. A reference
  held by the store or by a caller always points at a live dict; the case \<open>None\<close> is
  there for totality only.
\<close>

definition is_expired :: "memory \<Rightarrow> int \<Rightarrow> ref \<Rightarrow> bool" where
  "is_expired s now conv =
     (case dict_heap s conv of
        None \<Rightarrow> False
      | Some c \<Rightarrow>
          of_int (ttl_seconds s)
            < total_seconds (now - (case last_active c of None \<Rightarrow> datetime_min | Some t \<Rightarrow> t)))"

text \<open>
  \<^verbatim>\<open>get\<close> (source lines 31 to 38) returns the stored reference itself, or \<open>None\<close> after
  deleting an expired entry. A stored dict is never empty (\<^verbatim>\<open>set\<close> gives it a
  \<^verbatim>\<open>'last_active'\<close>), so \<^verbatim>\<open>if conv\<close> asks whether the key is present.
\<close>

definition get :: "memory \<Rightarrow> int \<Rightarrow> string \<Rightarrow> ref option \<times> memory" where
  "get s now conversation_id =
     (case map_of (store s) conversation_id of
        None \<Rightarrow> (None, s)
      | Some conv \<Rightarrow>
          if is_expired s now conv
          then (None, s\<lparr>store := AList.delete conversation_id (store s)\<rparr>)
          else (Some conv, s))"

text \<open>\<^verbatim>\<open>_cleanup_if_needed\<close> (source lines 59 to 64).\<close>

definition cleanup_if_needed :: "memory \<Rightarrow> int \<Rightarrow> memory" where
  "cleanup_if_needed s now =
     (if int (length (store s)) \<ge> max_conversations s
      then s\<lparr>store := filter (\<lambda>kv. \<not> is_expired s now (snd kv)) (store s)\<rparr>
      else s)"

text \<open>\<^verbatim>\<open>conv['last_active'] = datetime.now()\<close>, an assignment into the dict at \<open>conv\<close>.\<close>

definition touch :: "memory \<Rightarrow> int \<Rightarrow> ref \<Rightarrow> memory" where
  "touch s now conv =
     s\<lparr>dict_heap :=
         (dict_heap s)(conv := map_option (\<lambda>c. c\<lparr>last_active := Some now\<rparr>) (dict_heap s conv))\<rparr>"

text \<open>\<^verbatim>\<open>set\<close> (source lines 40 to 45); \<open>data\<close> is the address of the caller's dict.\<close>

definition set_conv :: "memory \<Rightarrow> int \<Rightarrow> string \<Rightarrow> ref \<Rightarrow> memory" where
  "set_conv s now conversation_id data =
     (let s1 = cleanup_if_needed s now;
          s2 = touch s1 now data
      in s2\<lparr>store := AList.update conversation_id data (store s2)\<rparr>)"

text \<open>
  \<^verbatim>\<open>update_messages\<close> (source lines 47 to 52); \<open>msgs\<close> is the address of the caller's
  list, which the stored dict is made to point at.
\<close>

definition update_messages :: "memory \<Rightarrow> int \<Rightarrow> string \<Rightarrow> ref \<Rightarrow> memory" where
  "update_messages s now conversation_id msgs =
     (case map_of (store s) conversation_id of
        None \<Rightarrow> s
      | Some conv \<Rightarrow>
          touch (s\<lparr>dict_heap :=
                    (dict_heap s)(conv := map_option (\<lambda>c. c\<lparr>messages := msgs\<rparr>)
                                            (dict_heap s conv))\<rparr>)
            now conv)"

subsection \<open>How \<^verbatim>\<open>AgentService.chat_stream\<close> uses the store\<close>

text \<open>\<^verbatim>\<open>conversation['messages']\<close> read, and \<^verbatim>\<open>conversation['messages'].append(m)\<close>.\<close>

definition messages_of :: "memory \<Rightarrow> ref \<Rightarrow> message list" where
  "messages_of s conv =
     (case dict_heap s conv of
        None \<Rightarrow> []
      | Some c \<Rightarrow> (case list_heap s (messages c) of None \<Rightarrow> [] | Some ms \<Rightarrow> ms))"

definition append_message :: "memory \<Rightarrow> ref \<Rightarrow> message \<Rightarrow> memory" where
  "append_message s conv m =
     (case dict_heap s conv of
        None \<Rightarrow> s
      | Some c \<Rightarrow> s\<lparr>list_heap := (list_heap s)(messages c \<mapsto> messages_of s conv @ [m])\<rparr>)"

text \<open>The dict literal of source lines 125 to 130: a new list and a new dict.\<close>

definition new_conversation :: "memory \<Rightarrow> int \<Rightarrow> string \<Rightarrow> int \<Rightarrow> ref \<times> memory" where
  "new_conversation s now conversation_id baby =
     (let l = next_ref s; d = Suc (next_ref s)
      in (d, s\<lparr>list_heap := (list_heap s)(l \<mapsto> []),
               dict_heap := (dict_heap s)(d \<mapsto>
                 \<lparr>conv_id = conversation_id, conv_baby_id = baby, messages = l,
                  created_at = now, last_active = None\<rparr>),
               next_ref := Suc (Suc (next_ref s))\<rparr>))"

text \<open>
  The opening of a turn (source lines 122 to 146): get or create the conversation,
  build the request from the system message, the history and the user message, and
  append the user message to the history. The result is the address held in
  \<^verbatim>\<open>conversation\<close>, the request, and the memory. No call of the store follows the
  append until the turn closes.
\<close>

definition open_turn ::
  "memory \<Rightarrow> int \<Rightarrow> int \<Rightarrow> string \<Rightarrow> string \<Rightarrow> string \<Rightarrow> (ref \<times> message list) \<times> memory"
where
  "open_turn s now baby system_content message conversation_id =
     (let (found, s1) = get s now conversation_id;
          (conversation, s2) =
            (case found of
               Some conv \<Rightarrow> (conv, s1)
             | None \<Rightarrow>
                 (let (conv, s') = new_conversation s1 now conversation_id baby
                  in (conv, set_conv s' now conversation_id conv)));
          user_message = \<lparr>role = ''user'', content = message\<rparr>;
          request = \<lparr>role = ''system'', content = system_content\<rparr>
                      # messages_of s2 conversation @ [user_message]
      in ((conversation, request), append_message s2 conversation user_message))"

text \<open>
  The closing of a turn (source lines 213 to 219): the reply, when there is one, is
  appended to the same list, which is then passed to \<^verbatim>\<open>update_messages\<close>. A turn that
  ends on a provider error returns before, and closes nothing.
\<close>

definition close_turn :: "memory \<Rightarrow> int \<Rightarrow> string \<Rightarrow> ref \<Rightarrow> string \<Rightarrow> memory" where
  "close_turn s now conversation_id conversation full_content =
     (if full_content \<noteq> [] then
        (let s1 = append_message s conversation \<lparr>role = ''assistant'', content = full_content\<rparr>
         in (case dict_heap s1 conversation of
               None \<Rightarrow> s1
             | Some c \<Rightarrow> update_messages s1 now conversation_id (messages c)))
      else s)"

text \<open>What the store holds for a key: the messages of the stored conversation.\<close>

definition stored_messages :: "memory \<Rightarrow> string \<Rightarrow> message list option" where
  "stored_messages s conversation_id =
     map_option (messages_of s) (map_of (store s) conversation_id)"


definition mem0 :: memory where
  "mem0 = \<lparr>dict_heap = Map.empty(0 \<mapsto> \<lparr>conv_id = ''c1'', conv_baby_id = 7, messages = 1,
                                         created_at = 0, last_active = Some 0\<rparr>),
           list_heap = Map.empty(1 \<mapsto> []), next_ref = 2, store = [(''c1'', 0)],
           max_conversations = 1000, ttl_seconds = 3600\<rparr>"

definition mem2 :: memory where
  "mem2 = \<lparr>dict_heap = Map.empty(0 \<mapsto> \<lparr>conv_id = ''c1'', conv_baby_id = 7, messages = 1,
                                         created_at = 0, last_active = Some 0\<rparr>,
                                   2 \<mapsto> \<lparr>conv_id = ''c2'', conv_baby_id = 7, messages = 3,
                                         created_at = 0, last_active = Some 3000000000\<rparr>),
           list_heap = Map.empty(1 \<mapsto> [], 3 \<mapsto> [\<lparr>role = ''user'', content = ''hello''\<rparr>]),
           next_ref = 4, store = [(''c1'', 0), (''c2'', 2)],
           max_conversations = 1000, ttl_seconds = 3600\<rparr>"

section \<open>The domain store and \<^verbatim>\<open>dao\<close>\<close>

text \<open>
  The tables the tools touch, with the columns they read or write; a table is the list
  of its rows in the order of their keys, with the key the next row gets. The state is what is committed: a statement
  that raises before \<^verbatim>\<open>commit\<close> leaves it as it was. \<open>available\<close> says whether the
  database answers; when it does not, every query raises \<^verbatim>\<open>OperationalError\<close>, which
  each function of \<^verbatim>\<open>dao\<close> catches. Dates are day numbers (\<^verbatim>\<open>date.toordinal\<close>). What
  MySQL does with a string outside a column's \<^verbatim>\<open>Enum\<close> is not modelled.
\<close>

record special_status =
  ss_id :: int
  ss_baby_id :: int
  ss_status_type :: string
  ss_start_date :: int
  ss_end_date :: int
  ss_description :: json
  ss_is_active :: bool
  ss_created_by :: int

record food =
  food_id :: int
  food_name :: string

record meal_plan =
  mp_id :: int
  mp_baby_id :: int
  mp_plan_date :: int
  mp_meal_type :: string
  mp_food_ids :: "int list"
  mp_new_food_id :: "int option"
  mp_is_ai_generated :: bool
  mp_notes :: json
  mp_is_completed :: bool
  mp_completed_at :: "int option"
  mp_created_by :: int

record baby_food_status =
  fs_id :: int
  fs_baby_id :: int
  fs_food_id :: int
  fs_status :: string
  fs_allergy_count :: int
  fs_allergy_symptoms :: json
  fs_updated_by :: int

record database =
  available :: bool
  special_statuses :: "special_status list"
  meal_plans :: "meal_plan list"
  food_statuses :: "baby_food_status list"
  foods :: "food list"
  next_status_id :: int
  next_plan_id :: int
  next_food_status_id :: int

text \<open>
  What a \<^verbatim>\<open>ToolExecutor\<close> knows besides the database: the day and the time, the
  baby and the user it was made for, and \<^verbatim>\<open>datetime.strptime(s, '%Y-%m-%d').date()\<close>
  as \<open>strptime\<close>, \<open>None\<close> when it raises \<^verbatim>\<open>ValueError\<close>.
\<close>

record env =
  today :: int
  clock :: int
  strptime :: "string \<Rightarrow> int option"
  baby_id :: int
  baby_name :: string
  user_id :: int

text \<open>
  \<^verbatim>\<open>SpecialStatus.STATUS_TYPE_NAMES\<close>: the Chinese words for sick, vaccination and
  other, in UTF-8.
\<close>

definition STATUS_TYPE_NAMES :: "(string \<times> string) list" where
  "STATUS_TYPE_NAMES =
     [(''sick'', map char_of [0xE7, 0x94, 0x9F, 0xE7, 0x97, 0x85 :: nat]),
      (''vaccine'', map char_of [0xE6, 0x89, 0x93, 0xE7, 0x96, 0xAB, 0xE8, 0x8B, 0x97 :: nat]),
      (''other'', map char_of [0xE5, 0x85, 0xB6, 0xE4, 0xBB, 0x96 :: nat])]"

definition status_type_name :: "string \<Rightarrow> string" where
  "status_type_name t = (case map_of STATUS_TYPE_NAMES t of None \<Rightarrow> t | Some n \<Rightarrow> n)"

text \<open>\<^verbatim>\<open>SpecialStatus.get_days_remaining\<close>; the column \<^verbatim>\<open>end_date\<close> is never null.\<close>

definition get_days_remaining :: "int \<Rightarrow> special_status \<Rightarrow> int" where
  "get_days_remaining tday st =
     (if \<not> ss_is_active st then 0 else max 0 (ss_end_date st - tday))"

text \<open>
  \<^verbatim>\<open>dao.get_active_special_status\<close> (source lines 498 to 509): the first row of the
  baby that is active and has not ended.
\<close>

definition get_active_special_status :: "database \<Rightarrow> int \<Rightarrow> int \<Rightarrow> special_status option" where
  "get_active_special_status db tday baby =
     (if \<not> available db then None
      else find (\<lambda>st. ss_baby_id st = baby \<and> ss_is_active st \<and> ss_end_date st \<ge> tday)
             (special_statuses db))"

text \<open>
  \<^verbatim>\<open>timedelta(days=v)\<close> takes a number of magnitude at most 999999999, and a date
  lies between day 1 and day 3652059 (\<^verbatim>\<open>date.max\<close>). A value bound to an \<^verbatim>\<open>Enum\<close>
  column must be a string.
\<close>

fun timedelta_days :: "json \<Rightarrow> py_exn + int" where
  "timedelta_days (JNum n) = (if \<bar>n\<bar> > 999999999 then Inl OverflowError else Inr n)"
| "timedelta_days (JBool b) = Inr (if b then 1 else 0)"
| "timedelta_days v = Inl TypeError"

definition date_add :: "int \<Rightarrow> int \<Rightarrow> py_exn + int" where
  "date_add d n = (if 1 \<le> d + n \<and> d + n \<le> 3652059 then Inr (d + n) else Inl OverflowError)"

fun enum_value :: "json \<Rightarrow> py_exn + string" where
  "enum_value (JStr s) = Inr s"
| "enum_value v = Inl StatementError"

text \<open>
  \<^verbatim>\<open>dao.create_special_status\<close> (source lines 512 to 544): the active rows of the baby
  are ended and the new row is added, in one commit. An exception other than
  \<^verbatim>\<open>OperationalError\<close> is not caught here.
\<close>

definition create_special_status ::
  "database \<Rightarrow> int \<Rightarrow> int \<Rightarrow> json \<Rightarrow> int \<Rightarrow> json \<Rightarrow> json \<Rightarrow>
   (py_exn + special_status option) \<times> database"
where
  "create_special_status db tday baby status_type created_by description duration_days =
     (if \<not> available db then (Inr None, db)
      else
        (case thn (timedelta_days duration_days) (\<lambda>n.
              thn (date_add tday n) (\<lambda>end_date.
              thn (enum_value status_type) (\<lambda>t.
              Inr \<lparr>ss_id = next_status_id db, ss_baby_id = baby, ss_status_type = t,
                   ss_start_date = tday, ss_end_date = end_date, ss_description = description,
                   ss_is_active = True, ss_created_by = created_by\<rparr>))) of
           Inl e \<Rightarrow> (Inl e, db)
         | Inr status \<Rightarrow>
             (Inr (Some status),
              db\<lparr>special_statuses :=
                    map (\<lambda>st. if ss_baby_id st = baby \<and> ss_is_active st
                              then st\<lparr>ss_is_active := False\<rparr> else st)
                      (special_statuses db) @ [status],
                  next_status_id := next_status_id db + 1\<rparr>)))"

text \<open>
  \<^verbatim>\<open>dao.get_food_by_name(name)\<close>: the module \<^verbatim>\<open>dao\<close> defines \<^verbatim>\<open>get_food_by_id\<close> and
  \<^verbatim>\<open>get_foods_by_ids\<close> and no \<^verbatim>\<open>get_food_by_name\<close>, and nothing else in the repository
  binds that name, so the attribute lookup raises \<^verbatim>\<open>AttributeError\<close> before any call
  is made.
\<close>

definition get_food_by_name :: "database \<Rightarrow> json \<Rightarrow> py_exn + food option" where
  "get_food_by_name db name = Inl AttributeError"

text \<open>
  \<^verbatim>\<open>dao.get_meal_plan\<close>, \<^verbatim>\<open>dao.create_or_update_meal_plan\<close> and
  \<^verbatim>\<open>dao.complete_meal_plan\<close> (source lines 413 to 479), with the arguments the tool
  passes.
\<close>

definition get_meal_plan :: "database \<Rightarrow> int \<Rightarrow> int \<Rightarrow> string \<Rightarrow> meal_plan option" where
  "get_meal_plan db baby plan_date meal_type =
     (if \<not> available db then None
      else find (\<lambda>p. mp_baby_id p = baby \<and> mp_plan_date p = plan_date \<and> mp_meal_type p = meal_type)
             (meal_plans db))"

definition create_or_update_meal_plan ::
  "database \<Rightarrow> int \<Rightarrow> int \<Rightarrow> string \<Rightarrow> int list \<Rightarrow> int \<Rightarrow> json \<Rightarrow> meal_plan option \<times> database"
where
  "create_or_update_meal_plan db baby plan_date meal_type food_ids created_by notes =
     (if \<not> available db then (None, db)
      else
        (case get_meal_plan db baby plan_date meal_type of
           Some plan \<Rightarrow>
             (let plan' = plan\<lparr>mp_food_ids := food_ids, mp_new_food_id := None,
                              mp_is_ai_generated := False, mp_notes := notes\<rparr>
              in (Some plan',
                  db\<lparr>meal_plans := map (\<lambda>p. if mp_id p = mp_id plan then plan' else p)
                                      (meal_plans db)\<rparr>))
         | None \<Rightarrow>
             (let plan = \<lparr>mp_id = next_plan_id db, mp_baby_id = baby, mp_plan_date = plan_date,
                          mp_meal_type = meal_type, mp_food_ids = food_ids,
                          mp_new_food_id = None, mp_is_ai_generated = False, mp_notes = notes,
                          mp_is_completed = False, mp_completed_at = None,
                          mp_created_by = created_by\<rparr>
              in (Some plan,
                  db\<lparr>meal_plans := meal_plans db @ [plan], next_plan_id := next_plan_id db + 1\<rparr>))))"

definition complete_meal_plan :: "database \<Rightarrow> int \<Rightarrow> int \<Rightarrow> bool \<times> database" where
  "complete_meal_plan db now plan_id =
     (if \<not> available db then (False, db)
      else if list_ex (\<lambda>p. mp_id p = plan_id) (meal_plans db) then
        (True,
         db\<lparr>meal_plans := map (\<lambda>p. if mp_id p = plan_id
                                    then p\<lparr>mp_is_completed := True, mp_completed_at := Some now\<rparr>
                                    else p) (meal_plans db)\<rparr>)
      else (False, db))"

text \<open>
  \<^verbatim>\<open>dao.get_baby_food_status\<close> and \<^verbatim>\<open>dao.create_or_update_baby_food_status\<close> (source
  lines 281 to 366), with the arguments the tool passes.
\<close>

definition get_baby_food_status :: "database \<Rightarrow> int \<Rightarrow> int \<Rightarrow> baby_food_status option" where
  "get_baby_food_status db baby fid =
     (if \<not> available db then None
      else find (\<lambda>f. fs_baby_id f = baby \<and> fs_food_id f = fid) (food_statuses db))"

definition create_or_update_baby_food_status ::
  "database \<Rightarrow> int \<Rightarrow> int \<Rightarrow> string \<Rightarrow> int \<Rightarrow> json \<Rightarrow> baby_food_status option \<times> database"
where
  "create_or_update_baby_food_status db baby fid status updated_by allergy_symptoms =
     (if \<not> available db then (None, db)
      else
        (case get_baby_food_status db baby fid of
           Some fs \<Rightarrow>
             (let fs1 = fs\<lparr>fs_status := status, fs_updated_by := updated_by\<rparr>;
                  fs2 = (if truthy allergy_symptoms
                         then fs1\<lparr>fs_allergy_symptoms := allergy_symptoms\<rparr> else fs1);
                  fs3 = (if status = ''allergic''
                         then fs2\<lparr>fs_allergy_count := fs_allergy_count fs2 + 1\<rparr> else fs2)
              in (Some fs3,
                  db\<lparr>food_statuses := map (\<lambda>f. if fs_id f = fs_id fs then fs3 else f)
                                         (food_statuses db)\<rparr>))
         | None \<Rightarrow>
             (let fs = \<lparr>fs_id = next_food_status_id db, fs_baby_id = baby, fs_food_id = fid,
                        fs_status = status, fs_allergy_count = 0,
                        fs_allergy_symptoms = allergy_symptoms, fs_updated_by = updated_by\<rparr>
              in (Some fs,
                  db\<lparr>food_statuses := food_statuses db @ [fs], next_food_status_id := next_food_status_id db + 1\<rparr>))))"

section \<open>The tool executor: \<^verbatim>\<open>ToolExecutor\<close>\<close>

text \<open>
  A handler returns \<^verbatim>\<open>(success, result)\<close>, where the result is a dict. The dicts are
  modelled by their shape: \<open>Failure\<close> is \<^verbatim>\<open>{'error': message}\<close>, and a \<open>tool_error\<close>
  names the message with the values written into it. In the order of the datatype:
  the unknown tool (with its name); \<^verbatim>\<open>str(e)\<close> of a caught exception; the missing status
  type; the bad date format; the special status that already exists (with its name and
  the days it has left); the failed creation; the missing meal type; the missing food
  names; the foods not found; the failed save; the missing food name; the food not
  found; the failed record. The other results carry the data of the success dicts.
\<close>

datatype tool_error =
    Unknown_tool string
  | Raised py_exn
  | Missing_status_type
  | Bad_date_format
  | Status_exists string int
  | Create_failed
  | Missing_meal_type
  | Missing_food_names
  | Foods_not_found "string list"
  | Save_failed
  | Missing_food_name
  | Food_not_found json
  | Record_failed

datatype tool_result =
    Failure tool_error
  | Status_recorded special_status
  | Meal_recorded int string "string list" "string list"
  | Allergy_recorded string json
  | Clarification json json
  | Answer json json

text \<open>
  What a handler does: it raises or returns, and leaves a database. The exception is
  caught by \<^verbatim>\<open>execute\<close>.
\<close>

type_synonym outcome = "(py_exn + bool \<times> tool_result) \<times> database"

text \<open>
  The parsing of a date argument (source lines 190 to 196 and 241 to 247): today when
  the argument is falsy, \<open>Inr None\<close> when \<^verbatim>\<open>strptime\<close> raises \<^verbatim>\<open>ValueError\<close>, and a
  \<^verbatim>\<open>TypeError\<close> when the argument is no string.
\<close>

definition parse_date :: "env \<Rightarrow> json \<Rightarrow> py_exn + int option" where
  "parse_date e date_str =
     (if truthy date_str then
        (case date_str of JStr s \<Rightarrow> Inr (strptime e s) | _ \<Rightarrow> Inl TypeError)
      else Inr (Some (today e)))"

text \<open>
  \<^verbatim>\<open>_execute_create_special_status\<close> (source lines 179 to 225). \<^verbatim>\<open>args.get\<close> raises
  \<^verbatim>\<open>AttributeError\<close> when the decoded arguments are no dict.
\<close>

fun execute_create_special_status :: "env \<Rightarrow> database \<Rightarrow> json \<Rightarrow> outcome" where
  "execute_create_special_status e db (JObj args) =
     (let status_type = dict_get args ''status_type'' JNull;
          description = dict_get args ''description'' JNull;
          start_date_str = dict_get args ''start_date'' JNull;
          duration_days = dict_get args ''duration_days'' (JNum 14)
      in if \<not> truthy status_type then (Inr (False, Failure Missing_status_type), db)
         else
           (case parse_date e start_date_str of
              Inl x \<Rightarrow> (Inl x, db)
            | Inr None \<Rightarrow> (Inr (False, Failure Bad_date_format), db)
            | Inr (Some start_date) \<Rightarrow>
                (case get_active_special_status db (today e) (baby_id e) of
                   Some existing \<Rightarrow>
                     (Inr (False, Failure (Status_exists
                             (status_type_name (ss_status_type existing))
                             (get_days_remaining (today e) existing))), db)
                 | None \<Rightarrow>
                     (case create_special_status db (today e) (baby_id e) status_type (user_id e)
                             description duration_days of
                        (Inl x, db') \<Rightarrow> (Inl x, db')
                      | (Inr None, db') \<Rightarrow> (Inr (False, Failure Create_failed), db')
                      | (Inr (Some status), db') \<Rightarrow>
                          (Inr (True, Status_recorded status), db')))))"
| "execute_create_special_status e db v = (Inl AttributeError, db)"

text \<open>
  \<^verbatim>\<open>_execute_create_meal_record\<close> (source lines 227 to 298): the loop over the food
  names, \<^verbatim>\<open>', '.join\<close> (which takes strings only), and the handler.
\<close>

fun find_foods :: "database \<Rightarrow> json list \<Rightarrow> py_exn + (food list \<times> json list)" where
  "find_foods db [] = Inr ([], [])"
| "find_foods db (name # names) =
     thn (get_food_by_name db name) (\<lambda>found.
     thn (find_foods db names) (\<lambda>(fs, missing).
     Inr (case found of Some f \<Rightarrow> (f # fs, missing) | None \<Rightarrow> (fs, name # missing))))"

fun join_names :: "json list \<Rightarrow> py_exn + string list" where
  "join_names [] = Inr []"
| "join_names (JStr s # vs) = thn (join_names vs) (\<lambda>ss. Inr (s # ss))"
| "join_names (v # vs) = Inl TypeError"

fun execute_create_meal_record :: "env \<Rightarrow> database \<Rightarrow> json \<Rightarrow> outcome" where
  "execute_create_meal_record e db (JObj args) =
     (let meal_date_str = dict_get args ''meal_date'' JNull;
          meal_type = dict_get args ''meal_type'' JNull;
          food_names = dict_get args ''food_names'' (JArr []);
          notes = dict_get args ''notes'' JNull
      in if \<not> truthy meal_type then (Inr (False, Failure Missing_meal_type), db)
         else if \<not> truthy food_names then (Inr (False, Failure Missing_food_names), db)
         else
           (case parse_date e meal_date_str of
              Inl x \<Rightarrow> (Inl x, db)
            | Inr None \<Rightarrow> (Inr (False, Failure Bad_date_format), db)
            | Inr (Some meal_date) \<Rightarrow>
                (case thn (py_iter food_names) (\<lambda>names.
                      thn (find_foods db names) (\<lambda>(found, missing).
                      Inr (names, found, missing))) of
                   Inl x \<Rightarrow> (Inl x, db)
                 | Inr (names, found, missing) \<Rightarrow>
                     if found = [] then
                       (case join_names names of
                          Inl x \<Rightarrow> (Inl x, db)
                        | Inr ns \<Rightarrow> (Inr (False, Failure (Foods_not_found ns)), db))
                     else
                       (case enum_value meal_type of
                          Inl x \<Rightarrow> (Inl x, db)
                        | Inr t \<Rightarrow>
                            (case create_or_update_meal_plan db (baby_id e) meal_date t
                                    (map food_id found) (user_id e) notes of
                               (None, db') \<Rightarrow> (Inr (False, Failure Save_failed), db')
                             | (Some plan, db') \<Rightarrow>
                                 (let db'' = snd (complete_meal_plan db' (clock e) (mp_id plan))
                                  in (case join_names missing of
                                        Inl x \<Rightarrow> (Inl x, db'')
                                      | Inr ms \<Rightarrow>
                                          (Inr (True, Meal_recorded meal_date t
                                                        (map food_name found) ms), db''))))))))"
| "execute_create_meal_record e db v = (Inl AttributeError, db)"

text \<open>\<^verbatim>\<open>_execute_report_allergy\<close> (source lines 300 to 335).\<close>

fun execute_report_allergy :: "env \<Rightarrow> database \<Rightarrow> json \<Rightarrow> outcome" where
  "execute_report_allergy e db (JObj args) =
     (let name = dict_get args ''food_name'' JNull;
          symptoms = dict_get args ''symptoms'' JNull
      in if \<not> truthy name then (Inr (False, Failure Missing_food_name), db)
         else
           (case get_food_by_name db name of
              Inl x \<Rightarrow> (Inl x, db)
            | Inr None \<Rightarrow> (Inr (False, Failure (Food_not_found name)), db)
            | Inr (Some f) \<Rightarrow>
                (case create_or_update_baby_food_status db (baby_id e) (food_id f) ''allergic''
                        (user_id e) symptoms of
                   (None, db') \<Rightarrow> (Inr (False, Failure Record_failed), db')
                 | (Some fs, db') \<Rightarrow>
                     (Inr (True, Allergy_recorded (food_name f) symptoms), db'))))"
| "execute_report_allergy e db v = (Inl AttributeError, db)"

text \<open>
  \<^verbatim>\<open>_execute_ask_clarification\<close> and \<^verbatim>\<open>_execute_answer_question\<close> (source lines 337
  to 353). The default question is a Chinese sentence asking for more information,
  in UTF-8.
\<close>

definition default_question :: string where
  "default_question =
     map char_of [0xE8, 0xAF, 0xB7, 0xE6, 0x8F, 0x90, 0xE4, 0xBE, 0x9B, 0xE6, 0x9B, 0xB4,
                  0xE5, 0xA4, 0x9A, 0xE4, 0xBF, 0xA1, 0xE6, 0x81, 0xAF :: nat]"

fun execute_ask_clarification :: "env \<Rightarrow> database \<Rightarrow> json \<Rightarrow> outcome" where
  "execute_ask_clarification e db (JObj args) =
     (Inr (True, Clarification (dict_get args ''question'' (JStr default_question))
                   (dict_get args ''missing_info'' (JStr ''other''))), db)"
| "execute_ask_clarification e db v = (Inl AttributeError, db)"

fun execute_answer_question :: "env \<Rightarrow> database \<Rightarrow> json \<Rightarrow> outcome" where
  "execute_answer_question e db (JObj args) =
     (Inr (True, Answer (dict_get args ''question_type'' (JStr ''other''))
                   (dict_get args ''use_advanced_model'' (JBool True))), db)"
| "execute_answer_question e db v = (Inl AttributeError, db)"

text \<open>
  \<^verbatim>\<open>execute\<close> (source lines 158 to 177). \<^verbatim>\<open>getattr(self, '_execute_' + tool_name, None)\<close>
  finds one of the five methods of the class, or nothing.
\<close>

definition handlers :: "(string \<times> (env \<Rightarrow> database \<Rightarrow> json \<Rightarrow> outcome)) list" where
  "handlers =
     [(''create_special_status'', execute_create_special_status),
      (''create_meal_record'', execute_create_meal_record),
      (''report_allergy'', execute_report_allergy),
      (''ask_clarification'', execute_ask_clarification),
      (''answer_question'', execute_answer_question)]"

definition execute ::
  "env \<Rightarrow> database \<Rightarrow> string \<Rightarrow> json \<Rightarrow> (bool \<times> tool_result) \<times> database"
where
  "execute e db tool_name arguments =
     (case map_of handlers tool_name of
        None \<Rightarrow> ((False, Failure (Unknown_tool tool_name)), db)
      | Some method \<Rightarrow>
          (case method e db arguments of
             (Inl x, db') \<Rightarrow> ((False, Failure (Raised x)), db')
           | (Inr r, db') \<Rightarrow> (r, db')))"

text \<open>A sample executor and database: the baby has a vaccination status with ten days left.\<close>

definition env1 :: env where
  "env1 = \<lparr>today = 100, clock = 0, strptime = (\<lambda>s. None), baby_id = 7,
            baby_name = ''Yoyo'', user_id = 1\<rparr>"

definition status1 :: special_status where
  "status1 = \<lparr>ss_id = 1, ss_baby_id = 7, ss_status_type = ''vaccine'', ss_start_date = 96,
               ss_end_date = 110, ss_description = JNull, ss_is_active = True,
               ss_created_by = 1\<rparr>"

definition db1 :: database where
  "db1 = \<lparr>available = True, special_statuses = [status1], meal_plans = [],
           food_statuses = [], foods = [], next_status_id = 2, next_plan_id = 1,
           next_food_status_id = 1\<rparr>"

section \<open>Properties of the streaming parser\<close>

subsection \<open>Lines the loop passes over\<close>


lemma undecodable_line_aborts:
  "line \<noteq> [] \<Longrightarrow> \<not> utf8_valid line \<Longrightarrow>
   chat_stream_lines loads closing acc (line # post) = [Error ServiceFault]"
  by simp

lemma loads_exception_aborts:
  assumes "utf8_valid line" and "prefix ''data: '' line" and "drop 6 line \<noteq> ''[DONE]''"
    and "loads (drop 6 line) = Inl e" and "e \<noteq> JSONDecodeError"
  shows "chat_stream_lines loads closing acc (line # post) = [Error ServiceFault]"
proof -
  have "line \<noteq> []" using assms(2) by auto
  then show ?thesis using assms by (cases e) simp_all
qed


lemma chat_stream_lines_decoded:
  assumes "list_all2 (\<lambda>l c. utf8_valid l \<and> prefix ''data: '' l \<and> drop 6 l \<noteq> ''[DONE]'' \<and>
                            loads (drop 6 l) = Inr c) lines chunks"
  shows "chat_stream_lines loads None acc lines = feed acc chunks"
  using assms
proof (induction lines chunks arbitrary: acc rule: list_all2_induct)
  case Nil
  then show ?case by simp
next
  case (Cons l ls c cs)
  from Cons.hyps(1) have "l \<noteq> []" by auto
  with Cons show ?case
    by (simp split: sum.splits prod.splits)
qed




subsection \<open>The accumulation of a tool call\<close>

lemma parse_terminal:
  assumes "terminal_marker chunk reason"
  shows "parse_chunk chunk acc = Inr (Some (finish_event reason acc), acc)"
  using assms
  apply (cases chunk; simp add: terminal_marker_def)
  apply (auto simp: parse_chunk_def thn_def split: option.splits json.splits list.splits)
  apply (auto simp: dict_get_def split: option.splits)
  done

lemma add_arg_text:
  "arg_text g = Some a \<Longrightarrow>
   (if truthy g then add_arguments t g else Inr t) = Inr (t\<lparr>acc_arguments := acc_arguments t @ a\<rparr>)"
  by (cases g) (auto split: if_splits)

lemma tc_viewD:
  assumes "tc_view tc = Some (k, i, n, a)"
  obtains kvs f where "tc = JObj kvs" "hash_key (dict_get kvs ''index'' (JNum 0)) = Inr k"
    "dict_get kvs ''function'' (JObj []) = JObj f"
    "arg_text (dict_get f ''arguments'' JNull) = Some a"
    "i = dict_get kvs ''id'' JNull" "n = dict_get f ''name'' JNull"
proof (cases tc)
  case (JObj kvs)
  show ?thesis
  proof (cases "hash_key (dict_get kvs ''index'' (JNum 0))")
    case (Inl e)
    with JObj assms show ?thesis by (simp add: tc_view_def)
  next
    case (Inr k')
    show ?thesis
    proof (cases "dict_get kvs ''function'' (JObj [])")
      case (JObj f)
      show ?thesis
      proof (cases "arg_text (dict_get f ''arguments'' JNull)")
        case None
        with \<open>tc = JObj kvs\<close> Inr JObj assms show ?thesis by (simp add: tc_view_def)
      next
        case (Some a')
        with \<open>tc = JObj kvs\<close> Inr JObj assms that show ?thesis by (simp add: tc_view_def)
      qed
    qed (use \<open>tc = JObj kvs\<close> Inr assms in \<open>simp_all add: tc_view_def\<close>)
  qed
qed (use assms in \<open>simp_all add: tc_view_def\<close>)

lemma accumulate_tc_view:
  assumes "tc_view tc = Some (k, p)"
  shows "accumulate_tc acc tc = Inr (AList.update k (merge_part (slot acc k) p) acc)"
proof -
  obtain i n a where p: "p = (i, n, a)" by (cases p) auto
  from assms[unfolded p] show ?thesis
  proof (rule tc_viewD)
    fix kvs f
    assume "tc = JObj kvs" "hash_key (dict_get kvs ''index'' (JNum 0)) = Inr k"
      "dict_get kvs ''function'' (JObj []) = JObj f"
      "arg_text (dict_get f ''arguments'' JNull) = Some a"
      "i = dict_get kvs ''id'' JNull" "n = dict_get f ''name'' JNull"
    then show ?thesis
      by (simp add: accumulate_tc_def thn_def add_arg_text p slot_def merge_part_def Let_def)
  qed
qed

lemma fragment_viewD:
  assumes "fragment_view chunk = Some v"
  obtains kvs c cs d tc where "chunk = JObj kvs"
    "map_of kvs ''choices'' = Some (JArr (JObj c # cs))"
    "dict_get c ''delta'' (JObj []) = JObj d" "map_of d ''tool_calls'' = Some (JArr [tc])"
    "tc_view tc = Some v"
  using assms
  by (cases chunk)
     (auto simp: fragment_view_def split: option.splits json.splits list.splits)

lemma parse_fragment:
  assumes "fragment_view chunk = Some (k, p)"
  shows "parse_chunk chunk acc = Inr (None, AList.update k (merge_part (slot acc k) p) acc)"
  using assms
proof (rule fragment_viewD)
  fix kvs c cs d tc
  assume "chunk = JObj kvs" "map_of kvs ''choices'' = Some (JArr (JObj c # cs))"
    "dict_get c ''delta'' (JObj []) = JObj d" "map_of d ''tool_calls'' = Some (JArr [tc])"
    "tc_view tc = Some (k, p)"
  then show ?thesis
    by (simp add: parse_chunk_def thn_def accumulate_tc_view)
qed

lemma feed_append:
  "accumulated acc xs = Some acc' \<Longrightarrow> feed acc (xs @ ys) = feed acc xs @ feed acc' ys"
  by (induction xs arbitrary: acc) (auto split: sum.splits prod.splits)

lemma slot_update: "slot (AList.update k v acc) k = v"
  by (simp add: slot_def update_conv')

lemma fragments_run:
  assumes "list_all2 (\<lambda>c p. fragment_view c = Some (k, p)) chunks parts"
  shows "feed acc chunks = [] \<and>
         accumulated acc chunks =
           Some (if parts = [] then acc
                 else AList.update k (foldl merge_part (slot acc k) parts) acc)"
  using assms
proof (induction chunks parts arbitrary: acc rule: list_all2_induct)
  case Nil
  then show ?case by simp
next
  case (Cons c chunks p parts)
  have step: "parse_chunk c acc = Inr (None, AList.update k (merge_part (slot acc k) p) acc)"
    using Cons.hyps(1) by (rule parse_fragment)
  show ?case
    using Cons.IH [of "AList.update k (merge_part (slot acc k) p) acc"]
    by (simp add: step slot_update)
qed

lemma merged_arguments:
  "acc_arguments (foldl merge_part a ps) = acc_arguments a @ concat (map (\<lambda>p. snd (snd p)) ps)"
  by (induction ps arbitrary: a) (simp_all add: merge_part_def Let_def)

lemma merged_id: "acc_id (foldl merge_part a ps) = latest (acc_id a) (map fst ps)"
  by (induction ps arbitrary: a) (simp_all add: merge_part_def Let_def)

lemma merged_name:
  "acc_name (foldl merge_part a ps) = latest (acc_name a) (map (\<lambda>p. fst (snd p)) ps)"
  by (induction ps arbitrary: a) (simp_all add: merge_part_def Let_def)

text \<open>
  Claim C1, as amended. Let a stream carry one tool call in \<open>N \<ge> 1\<close> fragments that
  all address index \<open>0\<close> (the index an absent \<^verbatim>\<open>index\<close> stands for), followed by the
  terminal marker with the reason \<^verbatim>\<open>tool_calls\<close>. Then the parser emits exactly one
  event, the tool call, and its arguments are the argument chunks of the fragments
  concatenated in the order of arrival; its id and name are the last non-empty ones.
\<close>

theorem tool_call_arguments_concatenated:
  assumes "parts \<noteq> []"
    and "list_all2 (\<lambda>c p. fragment_view c = Some (KInt 0, p)) chunks parts"
    and "terminal_marker fin (JStr ''tool_calls'')"
  shows "feed [] (chunks @ [fin]) =
           [Tool_call (latest (JStr []) (map fst parts))
              (latest (JStr []) (map (\<lambda>p. fst (snd p)) parts))
              (concat (map (\<lambda>p. snd (snd p)) parts))]"
proof -
  let ?t = "foldl merge_part (slot [] (KInt 0)) parts"
  have run: "feed [] chunks = []" "accumulated [] chunks = Some [(KInt 0, ?t)]"
    using fragments_run [OF assms(2), of "[]"] assms(1) by simp_all
  have "feed [] (chunks @ [fin]) = feed [(KInt 0, ?t)] [fin]"
    using feed_append [OF run(2)] run(1) by simp
  also have "\<dots> = [Tool_call (acc_id ?t) (acc_name ?t) (acc_arguments ?t)]"
    by (simp add: parse_terminal [OF assms(3)] finish_event_def)
  finally show ?thesis
    by (simp add: merged_arguments merged_id merged_name slot_def new_tool_acc_def)
qed

theorem tool_call_arguments_concatenated_witness:
  "list_all2 (\<lambda>c p. fragment_view c = Some (KInt 0, p))
     [tool_call_chunk (JNum 0) (JStr ''call_1'') (JStr ''report_allergy'') ''{\"food_'',
      tool_call_chunk (JNum 0) JNull JNull ''name\": \"egg\"}'']
     [(JStr ''call_1'', JStr ''report_allergy'', ''{\"food_''),
      (JNull, JNull, ''name\": \"egg\"}'')] \<and>
   terminal_marker (finish_chunk ''tool_calls'') (JStr ''tool_calls'') \<and>
   feed []
     ([tool_call_chunk (JNum 0) (JStr ''call_1'') (JStr ''report_allergy'') ''{\"food_'',
       tool_call_chunk (JNum 0) JNull JNull ''name\": \"egg\"}''] @ [finish_chunk ''tool_calls'']) =
     [Tool_call (JStr ''call_1'') (JStr ''report_allergy'') ''{\"food_name\": \"egg\"}'']"
proof -
  have h1: "list_all2 (\<lambda>c p. fragment_view c = Some (KInt 0, p))
     [tool_call_chunk (JNum 0) (JStr ''call_1'') (JStr ''report_allergy'') ''{\"food_'',
      tool_call_chunk (JNum 0) JNull JNull ''name\": \"egg\"}'']
     [(JStr ''call_1'', JStr ''report_allergy'', ''{\"food_''),
      (JNull, JNull, ''name\": \"egg\"}'')]"
    by (simp add: fragment_view_def tc_view_def tool_call_chunk_def dict_get_def)
  have h2: "terminal_marker (finish_chunk ''tool_calls'') (JStr ''tool_calls'')"
    by (simp add: terminal_marker_def finish_chunk_def dict_get_def)
  have c: "feed []
     ([tool_call_chunk (JNum 0) (JStr ''call_1'') (JStr ''report_allergy'') ''{\"food_'',
       tool_call_chunk (JNum 0) JNull JNull ''name\": \"egg\"}''] @ [finish_chunk ''tool_calls'']) =
     [Tool_call (JStr ''call_1'') (JStr ''report_allergy'') ''{\"food_name\": \"egg\"}'']"
    using tool_call_arguments_concatenated [OF _ h1 h2] by simp
  show ?thesis
    by (intro conjI h1 h2 c)
qed

text \<open>
  The claim as stated, for fragments at any one index, fails at index \<open>1\<close>: the
  terminal marker reads the accumulator at index \<open>0\<close> only, so the same two fragments
  addressed to index \<open>1\<close> yield the finish event and no tool call.
\<close>

theorem tool_call_at_index_1_not_emitted:
  "feed []
     [tool_call_chunk (JNum 1) (JStr ''call_1'') (JStr ''report_allergy'') ''{\"food_'',
      tool_call_chunk (JNum 1) JNull JNull ''name\": \"egg\"}'', finish_chunk ''tool_calls''] =
     [Finish (JStr ''tool_calls'')]"
  by (simp add: tool_call_chunk_def finish_chunk_def parse_chunk_def thn_def dict_get_def
        accumulate_tc_def finish_event_def new_tool_acc_def)

text \<open>
  Claim C2, as amended. When the chunks before it leave the accumulator \<open>acc\<close>, the
  terminal marker with the reason \<^verbatim>\<open>tool_calls\<close> adds exactly one event to those already
  emitted: the completed tool call of accumulator index \<open>0\<close> when a fragment was
  accumulated there, and the finish event otherwise. The tool call stands in for the
  finish event; the two are never both emitted.
\<close>

theorem terminal_marker_emits_one_event:
  assumes "accumulated [] chunks = Some acc"
    and "terminal_marker fin (JStr ''tool_calls'')"
  shows "feed [] (chunks @ [fin]) =
           feed [] chunks @
           [case map_of acc (KInt 0) of
              Some t \<Rightarrow> Tool_call (acc_id t) (acc_name t) (acc_arguments t)
            | None \<Rightarrow> Finish (JStr ''tool_calls'')]"
  using feed_append [OF assms(1)]
  by (cases acc) (auto simp: parse_terminal [OF assms(2)] finish_event_def split: option.splits)

theorem terminal_marker_emits_one_event_witness:
  "accumulated [] [tool_call_chunk (JNum 0) (JStr ''call_1'') (JStr ''ask_clarification'') ''{}'']
     = Some [(KInt 0, \<lparr>acc_id = JStr ''call_1'', acc_name = JStr ''ask_clarification'',
                        acc_arguments = ''{}''\<rparr>)] \<and>
   terminal_marker (finish_chunk ''tool_calls'') (JStr ''tool_calls'') \<and>
   feed [] ([tool_call_chunk (JNum 0) (JStr ''call_1'') (JStr ''ask_clarification'') ''{}'']
            @ [finish_chunk ''tool_calls'']) =
     [Tool_call (JStr ''call_1'') (JStr ''ask_clarification'') ''{}'']"
proof -
  have h1: "accumulated []
              [tool_call_chunk (JNum 0) (JStr ''call_1'') (JStr ''ask_clarification'') ''{}'']
     = Some [(KInt 0, \<lparr>acc_id = JStr ''call_1'', acc_name = JStr ''ask_clarification'',
                        acc_arguments = ''{}''\<rparr>)]"
    by (simp add: tool_call_chunk_def parse_chunk_def thn_def dict_get_def accumulate_tc_def
          new_tool_acc_def)
  have h2: "terminal_marker (finish_chunk ''tool_calls'') (JStr ''tool_calls'')"
    by (simp add: terminal_marker_def finish_chunk_def dict_get_def)
  have f: "feed [] [tool_call_chunk (JNum 0) (JStr ''call_1'') (JStr ''ask_clarification'') ''{}'']
             = []"
    by (simp add: tool_call_chunk_def parse_chunk_def thn_def dict_get_def accumulate_tc_def
          new_tool_acc_def)
  have c: "feed [] ([tool_call_chunk (JNum 0) (JStr ''call_1'') (JStr ''ask_clarification'') ''{}'']
            @ [finish_chunk ''tool_calls'']) =
     [Tool_call (JStr ''call_1'') (JStr ''ask_clarification'') ''{}'']"
    unfolding terminal_marker_emits_one_event [OF h1 h2] f by simp
  show ?thesis
    by (intro conjI h1 h2 c)
qed

text \<open>
  The claim as stated promises the tool call and then the finish event. The stream of
  one fragment at index \<open>0\<close> and the terminal marker yields the tool call alone:
  \<^verbatim>\<open>_parse_chunk\<close> returns one event for a chunk, and the finish event is not among the
  events of the stream.
\<close>

theorem tool_call_replaces_finish:
  "feed [] [tool_call_chunk (JNum 0) (JStr ''call_1'') (JStr ''ask_clarification'') ''{}'',
            finish_chunk ''tool_calls''] =
     [Tool_call (JStr ''call_1'') (JStr ''ask_clarification'') ''{}''] \<and>
   Finish (JStr ''tool_calls'') \<notin>
     set (feed [] [tool_call_chunk (JNum 0) (JStr ''call_1'') (JStr ''ask_clarification'') ''{}'',
                   finish_chunk ''tool_calls''])"
  by (simp add: tool_call_chunk_def finish_chunk_def parse_chunk_def thn_def dict_get_def
        accumulate_tc_def finish_event_def new_tool_acc_def)

section \<open>Properties of the conversation store\<close>

lemma is_expired_store [simp]: "is_expired (s\<lparr>store := st\<rparr>) now conv = is_expired s now conv"
  by (simp add: is_expired_def cong: option.case_cong)

text \<open>
  \<^verbatim>\<open>set\<close> and \<^verbatim>\<open>update_messages\<close> are the two writers of \<^verbatim>\<open>'last_active'\<close>: after
  either, the stamp of the entry is the time of the call.
\<close>

lemma set_conv_stamps:
  assumes "dict_heap s data = Some c"
  shows "map_of (store (set_conv s now k data)) k = Some data \<and>
         dict_heap (set_conv s now k data) data = Some (c\<lparr>last_active := Some now\<rparr>)"
  using assms
  by (simp add: set_conv_def Let_def touch_def cleanup_if_needed_def update_conv')

lemma update_messages_stamps:
  assumes "map_of (store s) k = Some conv" and "dict_heap s conv = Some c"
  shows "dict_heap (update_messages s now k m) conv =
           Some (c\<lparr>messages := m, last_active := Some now\<rparr>)"
  using assms by (simp add: update_messages_def touch_def)

subsection \<open>The seconds of a time difference\<close>







text \<open>The seconds of the differences in the sample memories.\<close>

lemma total_seconds_1s: "total_seconds 1000000 = 1"
  by code_simp



subsection \<open>Expiry\<close>




text \<open>
  Claim C10. \<^verbatim>\<open>update_messages\<close> for a key that is not in the store returns the memory
  it was given: no entry is created, none is changed, nothing is raised. For a key
  that is in the store, the one change is in its conversation, whose message list is
  replaced and whose stamp is set to the time of the call.
\<close>

theorem update_messages_frame:
  "(map_of (store s) k = None \<longrightarrow> update_messages s now k m = s) \<and>
   (\<forall>conv c. map_of (store s) k = Some conv \<and> dict_heap s conv = Some c \<longrightarrow>
      update_messages s now k m =
        s\<lparr>dict_heap := (dict_heap s)(conv \<mapsto> c\<lparr>messages := m, last_active := Some now\<rparr>)\<rparr>)"
  by (auto simp: update_messages_def touch_def)

theorem update_messages_frame_witness:
  "map_of (store mem2) ''c9'' = None \<and> update_messages mem2 5 ''c9'' 3 = mem2 \<and>
   map_of (store mem2) ''c1'' = Some 0 \<and>
   update_messages mem2 5 ''c1'' 3 =
     mem2\<lparr>dict_heap := (dict_heap mem2)(0 \<mapsto>
             \<lparr>conv_id = ''c1'', conv_baby_id = 7, messages = 3,
              created_at = 0, last_active = Some 5\<rparr>)\<rparr>"
proof -
  have h1: "map_of (store mem2) ''c9'' = None" by (simp add: mem2_def)
  have h2: "map_of (store mem2) ''c1'' = Some 0" by (simp add: mem2_def)
  have h3: "dict_heap mem2 0 = Some \<lparr>conv_id = ''c1'', conv_baby_id = 7, messages = 1,
                                     created_at = 0, last_active = Some 0\<rparr>"
    by (simp add: mem2_def)
  show ?thesis
    using h1 h2 h3 update_messages_frame [of mem2 "''c9''" 5 3]
      update_messages_frame [of mem2 "''c1''" 5 3]
    by simp
qed

text \<open>
  Claim C6, as amended. \<^verbatim>\<open>get\<close> returns the stored conversation itself, not a copy:
  for a key that is present and has not expired, the conversation a turn works on is
  the stored object, and the user turn appended to it is in the stored conversation
  at once, although the opening of the turn writes neither the store nor any
  conversation dict.
\<close>

theorem open_turn_shares_conversation:
  assumes "map_of (store s) k = Some conv"
    and "dict_heap s conv = Some c"
    and "\<not> is_expired s now conv"
  shows "fst (fst (open_turn s now baby sys msg k)) = conv \<and>
         store (snd (open_turn s now baby sys msg k)) = store s \<and>
         dict_heap (snd (open_turn s now baby sys msg k)) = dict_heap s \<and>
         stored_messages (snd (open_turn s now baby sys msg k)) k =
           Some (messages_of s conv @ [\<lparr>role = ''user'', content = msg\<rparr>])"
  using assms
  by (simp add: open_turn_def get_def Let_def append_message_def stored_messages_def
        messages_of_def)

theorem open_turn_shares_conversation_witness:
  "\<not> is_expired mem0 1000000 0 \<and>
   fst (fst (open_turn mem0 1000000 7 ''sys'' ''hi'' ''c1'')) = 0 \<and>
   store (snd (open_turn mem0 1000000 7 ''sys'' ''hi'' ''c1'')) = store mem0 \<and>
   stored_messages (snd (open_turn mem0 1000000 7 ''sys'' ''hi'' ''c1'')) ''c1'' =
     Some [\<lparr>role = ''user'', content = ''hi''\<rparr>]"
proof -
  have h1: "map_of (store mem0) ''c1'' = Some 0" by (simp add: mem0_def)
  have h2: "dict_heap mem0 0 = Some \<lparr>conv_id = ''c1'', conv_baby_id = 7, messages = 1,
                                     created_at = 0, last_active = Some 0\<rparr>"
    by (simp add: mem0_def)
  have h3: "\<not> is_expired mem0 1000000 0"
    by (simp add: mem0_def is_expired_def total_seconds_1s)
  have m: "messages_of mem0 0 = []" by (simp add: mem0_def messages_of_def)
  show ?thesis
    using h3 open_turn_shares_conversation [OF h1 h2 h3, of 7 "''sys''" "''hi''"]
    by (simp add: m)
qed

text \<open>
  The claim as stated has the user turn reach the stored conversation only through
  \<^verbatim>\<open>set\<close> or \<^verbatim>\<open>update_messages\<close>. The store holds an empty conversation for \<^verbatim>\<open>c1\<close>;
  a turn is opened, which calls \<^verbatim>\<open>get\<close> and appends; the stored conversation then holds
  the user turn.
\<close>

theorem append_visible_without_write_back:
  "stored_messages mem0 ''c1'' = Some [] \<and>
   stored_messages (snd (open_turn mem0 1000000 7 ''sys'' ''hi'' ''c1'')) ''c1'' =
     Some [\<lparr>role = ''user'', content = ''hi''\<rparr>]"
  by (simp add: mem0_def open_turn_def get_def Let_def append_message_def stored_messages_def
        messages_of_def is_expired_def total_seconds_1s)

text \<open>
  A conversation that is created by the turn is shared in the same way, and the
  write-back that closes a turn passes the stored list to the store again: it sets
  the stamp and leaves the messages as the appends made them.
\<close>

lemma open_turn_new_conversation:
  assumes "map_of (store s) k = None"
  shows "stored_messages (snd (open_turn s now baby sys msg k)) k =
           Some [\<lparr>role = ''user'', content = msg\<rparr>]"
  using assms
  by (simp add: open_turn_def get_def Let_def append_message_def stored_messages_def
        messages_of_def new_conversation_def set_conv_def touch_def cleanup_if_needed_def
        update_conv')

lemma close_turn_write_back:
  assumes "map_of (store s) k = Some conv"
    and "dict_heap s conv = Some c"
    and "reply \<noteq> []"
  shows "close_turn s now k conv reply =
           touch (append_message s conv \<lparr>role = ''assistant'', content = reply\<rparr>) now conv"
  using assms
  by (simp add: close_turn_def Let_def append_message_def update_messages_def touch_def
        fun_upd_idem)

section \<open>Properties of the tool executor\<close>

text \<open>
  Claim C9. A tool name that names none of the five handlers is answered with the
  failure naming the unknown tool, whatever the arguments are: nothing is raised and
  the database is the one given.
\<close>

theorem unknown_tool:
  assumes "tool_name \<notin> set (map fst handlers)"
  shows "execute e db tool_name arguments = ((False, Failure (Unknown_tool tool_name)), db)"
proof -
  have "map_of handlers tool_name = None"
    using assms by (simp add: map_of_eq_None_iff)
  then show ?thesis by (simp add: execute_def)
qed

theorem unknown_tool_witness:
  "''drop_tables'' \<notin> set (map fst handlers) \<and>
   execute env1 db1 ''drop_tables'' (JObj []) =
     ((False, Failure (Unknown_tool ''drop_tables'')), db1)"
proof -
  have h: "''drop_tables'' \<notin> set (map fst handlers)" by (simp add: handlers_def)
  show ?thesis by (rule conjI [OF h unknown_tool [OF h]])
qed

subsection \<open>The two tools that look a food up by name\<close>

lemma find_foods_raises: "names \<noteq> [] \<Longrightarrow> find_foods db names = Inl AttributeError"
  by (cases names) (simp_all add: get_food_by_name_def thn_def)

lemma utf8_chars_Nil: "utf8_chars s = [] \<longleftrightarrow> s = []"
  by (cases s) simp_all

lemma py_iter_truthy:
  "truthy v \<Longrightarrow> py_iter v = Inr names \<Longrightarrow> names \<noteq> []"
  by (cases v) (auto simp: utf8_chars_Nil)

lemma report_allergy_fails:
  "(\<exists>x. execute_report_allergy e db args = (Inl x, db)) \<or>
   (\<exists>err. execute_report_allergy e db args = (Inr (False, Failure err), db))"
  by (cases args) (auto simp: get_food_by_name_def Let_def)

lemma report_allergy_raises:
  "truthy (dict_get kvs ''food_name'' JNull) \<Longrightarrow>
   execute_report_allergy e db (JObj kvs) = (Inl AttributeError, db)"
  by (simp add: get_food_by_name_def Let_def)

lemma create_meal_record_fails:
  "(\<exists>x. execute_create_meal_record e db args = (Inl x, db)) \<or>
   (\<exists>err. execute_create_meal_record e db args = (Inr (False, Failure err), db))"
proof (cases args)
  case (JObj kvs)
  let ?names = "dict_get kvs ''food_names'' (JArr [])"
  have loop: "truthy ?names \<Longrightarrow>
      \<exists>x. thn (py_iter ?names) (\<lambda>names. thn (find_foods db names) (\<lambda>(found, missing).
             Inr (names, found, missing))) = Inl x"
    by (cases "py_iter ?names")
       (auto simp: thn_def find_foods_raises dest: py_iter_truthy)
  show ?thesis
  proof (cases "truthy (dict_get kvs ''meal_type'' JNull) \<and> truthy ?names")
    case True
    then obtain x where x: "thn (py_iter ?names) (\<lambda>names. thn (find_foods db names)
        (\<lambda>(found, missing). Inr (names, found, missing))) = Inl x"
      using loop by blast
    show ?thesis
      using True
      by (cases "parse_date e (dict_get kvs ''meal_date'' JNull)")
         (auto simp: JObj Let_def x split: option.splits)
  next
    case False
    then show ?thesis by (auto simp: JObj Let_def)
  qed
qed simp_all

lemma create_meal_record_raises:
  assumes "truthy (dict_get kvs ''meal_type'' JNull)"
    and "dict_get kvs ''food_names'' (JArr []) = JArr (n # ns)"
    and "parse_date e (dict_get kvs ''meal_date'' JNull) = Inr (Some d)"
  shows "execute_create_meal_record e db (JObj kvs) = (Inl AttributeError, db)"
  using assms by (simp add: Let_def thn_def get_food_by_name_def)

text \<open>
  Claim C8. For every argument payload, \<^verbatim>\<open>create_meal_record\<close> and \<^verbatim>\<open>report_allergy\<close>
  return a failure and leave the database as it was. When the payload has the required
  fields (a food name; a meal type and a non-empty list of food names, with a date
  that parses or none), the failure is the \<^verbatim>\<open>AttributeError\<close> of the missing
  \<^verbatim>\<open>dao.get_food_by_name\<close>, caught by \<^verbatim>\<open>execute\<close>.
\<close>

theorem food_tools_fail:
  "(\<exists>err. execute e db ''create_meal_record'' args = ((False, Failure err), db)) \<and>
   (\<exists>err. execute e db ''report_allergy'' args = ((False, Failure err), db)) \<and>
   (\<forall>kvs. truthy (dict_get kvs ''food_name'' JNull) \<longrightarrow>
      execute e db ''report_allergy'' (JObj kvs) =
        ((False, Failure (Raised AttributeError)), db)) \<and>
   (\<forall>kvs n ns d.
      truthy (dict_get kvs ''meal_type'' JNull) \<and>
      dict_get kvs ''food_names'' (JArr []) = JArr (n # ns) \<and>
      parse_date e (dict_get kvs ''meal_date'' JNull) = Inr (Some d) \<longrightarrow>
      execute e db ''create_meal_record'' (JObj kvs) =
        ((False, Failure (Raised AttributeError)), db))"
proof (intro conjI allI impI)
  show "\<exists>err. execute e db ''create_meal_record'' args = ((False, Failure err), db)"
    using create_meal_record_fails [of e db args]
    by (auto simp: execute_def handlers_def)
  show "\<exists>err. execute e db ''report_allergy'' args = ((False, Failure err), db)"
    using report_allergy_fails [of e db args]
    by (auto simp: execute_def handlers_def)
next
  fix kvs
  assume "truthy (dict_get kvs ''food_name'' JNull)"
  then show "execute e db ''report_allergy'' (JObj kvs) =
      ((False, Failure (Raised AttributeError)), db)"
    by (simp add: execute_def handlers_def report_allergy_raises del: execute_report_allergy.simps)
next
  fix kvs n ns d
  assume "truthy (dict_get kvs ''meal_type'' JNull) \<and>
      dict_get kvs ''food_names'' (JArr []) = JArr (n # ns) \<and>
      parse_date e (dict_get kvs ''meal_date'' JNull) = Inr (Some d)"
  then have "execute_create_meal_record e db (JObj kvs) = (Inl AttributeError, db)"
    using create_meal_record_raises by blast
  then show "execute e db ''create_meal_record'' (JObj kvs) =
      ((False, Failure (Raised AttributeError)), db)"
    by (simp add: execute_def handlers_def del: execute_create_meal_record.simps)
qed

theorem food_tools_fail_witness:
  "truthy (dict_get [(''food_name'', JStr ''egg'')] ''food_name'' JNull) \<and>
   execute env1 db1 ''report_allergy'' (JObj [(''food_name'', JStr ''egg'')]) =
     ((False, Failure (Raised AttributeError)), db1) \<and>
   execute env1 db1 ''create_meal_record''
     (JObj [(''meal_type'', JStr ''lunch''), (''food_names'', JArr [JStr ''egg''])]) =
     ((False, Failure (Raised AttributeError)), db1)"
proof -
  have h1: "truthy (dict_get [(''food_name'', JStr ''egg'')] ''food_name'' JNull)"
    by (simp add: dict_get_def)
  have h2: "truthy (dict_get [(''meal_type'', JStr ''lunch''), (''food_names'', JArr [JStr ''egg''])]
                ''meal_type'' JNull) \<and>
      dict_get [(''meal_type'', JStr ''lunch''), (''food_names'', JArr [JStr ''egg''])]
        ''food_names'' (JArr []) = JArr (JStr ''egg'' # []) \<and>
      parse_date env1
        (dict_get [(''meal_type'', JStr ''lunch''), (''food_names'', JArr [JStr ''egg''])]
           ''meal_date'' JNull) = Inr (Some 100)"
    by (simp add: dict_get_def parse_date_def env1_def)
  show ?thesis
    using h1 h2 food_tools_fail [of env1 db1 JNull] by blast
qed

text \<open>
  Claim C5. \<^verbatim>\<open>report_allergy\<close> for a food name returns a failure and leaves the database
  as it was, whether or not the food store knows the name: the lookup itself raises,
  and the empty name is refused before it. So it does for every name that cannot be
  resolved.
\<close>

theorem report_allergy_unknown_food:
  "execute e db ''report_allergy'' (JObj [(''food_name'', JStr n)]) =
     ((False, Failure (if n = [] then Missing_food_name else Raised AttributeError)), db)"
  by (simp add: execute_def handlers_def dict_get_def get_food_by_name_def Let_def)

subsection \<open>A special status while another is active\<close>

lemma create_special_status_blocked:
  assumes "get_active_special_status db (today e) (baby_id e) = Some existing"
  shows "(\<exists>x. execute_create_special_status e db args = (Inl x, db)) \<or>
         (\<exists>err. execute_create_special_status e db args = (Inr (False, Failure err), db))"
  using assms
  by (cases args) (auto simp: Let_def split: sum.splits option.splits)

lemma active_status_days:
  assumes "get_active_special_status db tday baby = Some existing"
  shows "ss_baby_id existing = baby \<and> ss_is_active existing \<and>
         get_days_remaining tday existing = ss_end_date existing - tday \<and>
         0 \<le> ss_end_date existing - tday"
  using assms
  by (auto simp: get_active_special_status_def get_days_remaining_def find_Some_iff
           split: if_splits)

text \<open>
  Claim C4, as amended. While the baby has an active special status,
  \<^verbatim>\<open>create_special_status\<close> returns a failure and leaves the database as it was,
  whatever the arguments are. When the arguments pass the handler's own checks (a
  status type that is not empty, and a start date that parses or none), the failure
  is the conflict, which names the existing status and the days it has left.
\<close>

theorem active_status_conflict:
  assumes "get_active_special_status db (today e) (baby_id e) = Some existing"
  shows "(\<exists>err. execute e db ''create_special_status'' args = ((False, Failure err), db)) \<and>
         (\<forall>kvs d. truthy (dict_get kvs ''status_type'' JNull) \<and>
                  parse_date e (dict_get kvs ''start_date'' JNull) = Inr (Some d) \<longrightarrow>
            execute e db ''create_special_status'' (JObj kvs) =
              ((False, Failure (Status_exists (status_type_name (ss_status_type existing))
                                  (ss_end_date existing - today e))), db))"
proof
  show "\<exists>err. execute e db ''create_special_status'' args = ((False, Failure err), db)"
    using create_special_status_blocked [OF assms, of args]
    by (auto simp: execute_def handlers_def)
  have days: "get_days_remaining (today e) existing = ss_end_date existing - today e"
    using active_status_days [OF assms] by simp
  show "\<forall>kvs d. truthy (dict_get kvs ''status_type'' JNull) \<and>
                  parse_date e (dict_get kvs ''start_date'' JNull) = Inr (Some d) \<longrightarrow>
            execute e db ''create_special_status'' (JObj kvs) =
              ((False, Failure (Status_exists (status_type_name (ss_status_type existing))
                                  (ss_end_date existing - today e))), db)"
    using assms by (simp add: execute_def handlers_def Let_def days)
qed

lemma sample_status_active:
  "get_active_special_status db1 (today env1) (baby_id env1) = Some status1"
  by (simp add: get_active_special_status_def db1_def env1_def status1_def)

theorem active_status_conflict_witness:
  "get_active_special_status db1 (today env1) (baby_id env1) = Some status1 \<and>
   execute env1 db1 ''create_special_status'' (JObj [(''status_type'', JStr ''sick'')]) =
     ((False, Failure (Status_exists (status_type_name ''vaccine'') 10)), db1)"
proof -
  have p: "truthy (dict_get [(''status_type'', JStr ''sick'')] ''status_type'' JNull) \<and>
           parse_date env1 (dict_get [(''status_type'', JStr ''sick'')] ''start_date'' JNull) =
             Inr (Some 100)"
    by (simp add: dict_get_def parse_date_def env1_def)
  have v: "ss_status_type status1 = ''vaccine''" "ss_end_date status1 - today env1 = 10"
    by (simp_all add: status1_def env1_def)
  show ?thesis
    using sample_status_active p
      active_status_conflict [OF sample_status_active, of "JNull"]
    unfolding v by blast
qed

text \<open>
  The claim as stated promises the conflict for any arguments. With an active status
  and the empty payload (which the orchestrator passes when the argument text does
  not decode), the check of the status type comes first, and the failure is the
  missing status type.
\<close>

theorem active_status_missing_type:
  "get_active_special_status db1 (today env1) (baby_id env1) = Some status1 \<and>
   execute env1 db1 ''create_special_status'' (JObj []) =
     ((False, Failure Missing_status_type), db1)"
  by (simp add: sample_status_active execute_def handlers_def dict_get_def)

text \<open>
  Without an active status the same call records one: the conflict is what keeps a
  second record from being made.
\<close>

lemma special_status_recorded_when_none_active:
  "execute env1 (db1\<lparr>special_statuses := []\<rparr>) ''create_special_status''
     (JObj [(''status_type'', JStr ''sick'')]) =
     ((True, Status_recorded
        \<lparr>ss_id = 2, ss_baby_id = 7, ss_status_type = ''sick'', ss_start_date = 100,
         ss_end_date = 114, ss_description = JNull, ss_is_active = True, ss_created_by = 1\<rparr>),
      db1\<lparr>special_statuses :=
            [\<lparr>ss_id = 2, ss_baby_id = 7, ss_status_type = ''sick'', ss_start_date = 100,
              ss_end_date = 114, ss_description = JNull, ss_is_active = True,
              ss_created_by = 1\<rparr>],
          next_status_id := 3\<rparr>)"
  by (simp add: execute_def handlers_def dict_get_def parse_date_def env1_def db1_def Let_def
        get_active_special_status_def create_special_status_def thn_def date_add_def)

end
